theory Spec2Isabelle
  imports Main
begin

section \<open>Python string primitives used by the sources\<close>

text \<open>
  A Python \<open>str\<close> is modelled as a \<open>string\<close>; a \<open>char\<close> stands for the code point with
  the same number (0 to 255).  \<open>isspace\<close> is Python's \<open>str.isspace\<close> on that range, which is
  the set of characters that \<open>str.strip()\<close> removes.
\<close>

definition isspace :: "char \<Rightarrow> bool" where
  "isspace c = (let n = (of_char c :: nat) in
     (9 \<le> n \<and> n \<le> 13) \<or> (28 \<le> n \<and> n \<le> 32) \<or> n = 133 \<or> n = 160)"

definition strip :: "string \<Rightarrow> string" where
  "strip s = rev (dropWhile isspace (rev (dropWhile isspace s)))"

definition startswith :: "string \<Rightarrow> string \<Rightarrow> bool" where
  "startswith p s = (take (length p) s = p)"

definition endswith :: "string \<Rightarrow> string \<Rightarrow> bool" where
  "endswith p s = (take (length p) (rev s) = rev p)"

text \<open>\<open>sql_code.split("\n")\<close>: always at least one piece; the separator is removed.\<close>

fun split_lines :: "string \<Rightarrow> string list" where
  "split_lines [] = [[]]"
| "split_lines (c # cs) =
     (if c = CHR 0x0A then [] # split_lines cs
      else (case split_lines cs of
              [] \<Rightarrow> [[c]]
            | l # ls \<Rightarrow> (c # l) # ls))"

text \<open>\<open>sep.join(xs)\<close>.\<close>

fun join :: "string \<Rightarrow> string list \<Rightarrow> string" where
  "join sep [] = []"
| "join sep [x] = x"
| "join sep (x # y # ys) = x @ sep @ join sep (y # ys)"

section \<open>The statement splitter (sql\_executor.py, \<open>_split_sql_statements\<close>)\<close>

text \<open>
  One iteration of the \<open>for line in sql_code.split("\n")\<close> loop, on the pair
  \<open>(statements, current_statement)\<close>.
\<close>

definition split_step :: "string list \<times> string \<Rightarrow> string \<Rightarrow> string list \<times> string" where
  "split_step st raw = (case st of (statements, current_statement) \<Rightarrow>
     (let line = strip raw in
      if startswith ''--'' line \<or> startswith ''#'' line \<or> line = []
      then (statements, current_statement)
      else (let cur = current_statement @ '' '' @ line in
            if endswith '';'' line then (statements @ [strip cur], [])
            else (statements, cur))))"

definition split_sql_statements :: "string \<Rightarrow> string list" where
  "split_sql_statements sql_code =
     (case foldl split_step ([], []) (split_lines sql_code) of
        (statements, current_statement) \<Rightarrow>
          if strip current_statement \<noteq> [] then statements @ [strip current_statement]
          else statements)"

text \<open>
  The splitter as the specification words it: keep the stripped lines that are neither
  blank nor comments, cut the sequence after every line ending in a semicolon, keep a
  non-empty remainder as a last group, and join each group with single spaces.
\<close>

definition kept_lines :: "string \<Rightarrow> string list" where
  "kept_lines sql_code =
     filter (\<lambda>l. l \<noteq> [] \<and> \<not> startswith ''--'' l \<and> \<not> startswith ''#'' l)
       (map strip (split_lines sql_code))"

fun spec_groups :: "string list \<Rightarrow> string list \<Rightarrow> string list list" where
  "spec_groups buf [] = (if buf = [] then [] else [buf])"
| "spec_groups buf (l # ls) =
     (if endswith '';'' l then (buf @ [l]) # spec_groups [] ls
      else spec_groups (buf @ [l]) ls)"

definition spec_split :: "string \<Rightarrow> string list" where
  "spec_split sql_code = map (join '' '') (spec_groups [] (kept_lines sql_code))"

text \<open>
  The statement buffer that the loop holds after appending the lines \<open>buf\<close> to an empty
  buffer (each line preceded by one blank), and the final flush after the loop.
\<close>

definition buffer_of :: "string list \<Rightarrow> string" where
  "buffer_of buf = concat (map (\<lambda>l. '' '' @ l) buf)"

definition final_flush :: "string list \<times> string \<Rightarrow> string list" where
  "final_flush st = (case st of (statements, current_statement) \<Rightarrow>
     if strip current_statement \<noteq> [] then statements @ [strip current_statement]
     else statements)"

section \<open>Schema descriptions (the dictionaries read by the two converters)\<close>

text \<open>
  A key that the code reads with \<open>d.get(key, default)\<close> may be absent and is an
  \<open>option\<close>; a key read with \<open>d[key]\<close> is a plain field.
\<close>

definition dict_get :: "'a option \<Rightarrow> 'a \<Rightarrow> 'a" where
  "dict_get v dflt = (case v of None \<Rightarrow> dflt | Some x \<Rightarrow> x)"

record attribute =
  attr_name :: string
  attr_type :: string
  is_primary_key :: "bool option"
  is_nullable :: "bool option"

record entity =
  entity_name :: string
  attributes :: "attribute list"

record relationship =
  rel_type :: "string option"
  entity1 :: "string option"
  entity2 :: "string option"
  rel_attributes :: "attribute list"

record schema_description =
  entities :: "entity list option"
  relationships :: "relationship list option"

text \<open>The converter object: its only attribute is \<open>self.db_engine\<close>.\<close>

record converter =
  conv_db_engine :: string

section \<open>SQL synthesis (nl\_to\_sql.py and er\_to\_sql.py)\<close>

text \<open>
  \<open>_generate_create_table\<close> has the same text in both classes.  One iteration of its
  \<open>for attr in attributes\<close> loop, on the pair \<open>(columns, primary_keys)\<close>:
\<close>

definition column_step :: "string list \<times> string list \<Rightarrow> attribute \<Rightarrow> string list \<times> string list" where
  "column_step acc attr = (case acc of (columns, primary_keys) \<Rightarrow>
     (let column_def = ''    '' @ attr_name attr @ '' '' @ attr_type attr;
          column_def = (if \<not> dict_get (is_nullable attr) True
                        then column_def @ '' NOT NULL'' else column_def);
          primary_keys = (if dict_get (is_primary_key attr) False
                          then primary_keys @ [attr_name attr] else primary_keys)
      in (columns @ [column_def], primary_keys)))"

text \<open>The list \<open>columns\<close> at the point where it is joined.\<close>

definition create_table_clauses :: "attribute list \<Rightarrow> string list" where
  "create_table_clauses attrs =
     (case foldl column_step ([], []) attrs of (columns, primary_keys) \<Rightarrow>
        if primary_keys \<noteq> []
        then columns @ [''    PRIMARY KEY ('' @ join '', '' primary_keys @ '')'']
        else columns)"

definition nl_generate_create_table :: "converter \<Rightarrow> entity \<Rightarrow> string" where
  "nl_generate_create_table self entity =
     (let table_name = entity_name entity;
          create_statement = ''CREATE TABLE '' @ table_name @ '' (\<newline>'';
          create_statement = create_statement @ join '',\<newline>'' (create_table_clauses (attributes entity));
          create_statement = create_statement @ ''\<newline>);\<newline>\<newline>''
      in create_statement)"

definition er_generate_create_table :: "converter \<Rightarrow> entity \<Rightarrow> string" where
  "er_generate_create_table self entity =
     (let table_name = entity_name entity;
          create_statement = ''CREATE TABLE '' @ table_name @ '' (\<newline>'';
          create_statement = create_statement @ join '',\<newline>'' (create_table_clauses (attributes entity));
          create_statement = create_statement @ ''\<newline>);\<newline>\<newline>''
      in create_statement)"

text \<open>The junction table, built by the same seven string appends in both classes.\<close>

definition junction_table :: "string \<Rightarrow> string \<Rightarrow> string" where
  "junction_table e1 e2 =
     (let table_name = e1 @ ''_'' @ e2;
          sql = ''CREATE TABLE '' @ table_name @ '' (\<newline>'';
          sql = sql @ ''    '' @ e1 @ ''_id INTEGER NOT NULL,\<newline>'';
          sql = sql @ ''    '' @ e2 @ ''_id INTEGER NOT NULL,\<newline>'';
          sql = sql @ ''    PRIMARY KEY ('' @ e1 @ ''_id, '' @ e2 @ ''_id),\<newline>'';
          sql = sql @ ''    FOREIGN KEY ('' @ e1 @ ''_id) REFERENCES '' @ e1 @ '' (id),\<newline>'';
          sql = sql @ ''    FOREIGN KEY ('' @ e2 @ ''_id) REFERENCES '' @ e2 @ '' (id)\<newline>'';
          sql = sql @ '');\<newline>\<newline>''
      in sql)"

definition nl_generate_relationship :: "converter \<Rightarrow> relationship \<Rightarrow> string" where
  "nl_generate_relationship self relationship =
     (let rtype = dict_get (rel_type relationship) '''';
          e1 = dict_get (entity1 relationship) '''';
          e2 = dict_get (entity2 relationship) ''''
      in if rtype = ''many_to_many'' then junction_table e1 e2
         else if rtype \<in> set [''one_to_many'', ''one_to_one''] then ''''
         else '''')"

definition er_generate_relationship :: "converter \<Rightarrow> relationship \<Rightarrow> string" where
  "er_generate_relationship self relationship =
     (let rtype = dict_get (rel_type relationship) '''';
          e1 = dict_get (entity1 relationship) '''';
          e2 = dict_get (entity2 relationship) ''''
      in if rtype = ''many_to_many'' then junction_table e1 e2
         else if rtype = ''many_to_one'' then
           (let sql = ''-- Add foreign key to implement '' @ e1 @ '' to '' @ e2 @ '' relationship\<newline>'';
                sql = sql @ ''ALTER TABLE '' @ e1 @ '' ADD COLUMN '' @ e2 @ ''_id INTEGER;\<newline>'';
                sql = sql @ ''ALTER TABLE '' @ e1 @ '' ADD FOREIGN KEY ('' @ e2 @ ''_id) REFERENCES ''
                          @ e2 @ '' (id);\<newline>\<newline>''
            in sql)
         else if rtype = ''one_to_one'' then
           (let sql = ''-- Add foreign key with unique constraint for one-to-one relationship\<newline>'';
                sql = sql @ ''ALTER TABLE '' @ e1 @ '' ADD COLUMN '' @ e2 @ ''_id INTEGER UNIQUE;\<newline>'';
                sql = sql @ ''ALTER TABLE '' @ e1 @ '' ADD FOREIGN KEY ('' @ e2 @ ''_id) REFERENCES ''
                          @ e2 @ '' (id);\<newline>\<newline>''
            in sql)
         else '''')"

text \<open>\<open>generate_sql\<close> and \<open>_generate_sql\<close>: two loops of \<open>sql_code += ...\<close>.\<close>

definition nl_generate_sql :: "converter \<Rightarrow> schema_description \<Rightarrow> string" where
  "nl_generate_sql self entities_data =
     (let sql_code = '''';
          sql_code = foldl (\<lambda>acc entity. acc @ nl_generate_create_table self entity) sql_code
                       (dict_get (entities entities_data) []);
          sql_code = foldl (\<lambda>acc relationship. acc @ nl_generate_relationship self relationship)
                       sql_code (dict_get (relationships entities_data) [])
      in sql_code)"

definition er_generate_sql :: "converter \<Rightarrow> schema_description \<Rightarrow> string" where
  "er_generate_sql self schema_data =
     (let sql_code = ''-- SQL Generated from ER Diagram\<newline>\<newline>'';
          sql_code = foldl (\<lambda>acc entity. acc @ er_generate_create_table self entity) sql_code
                       (dict_get (entities schema_data) []);
          sql_code = foldl (\<lambda>acc relationship. acc @ er_generate_relationship self relationship)
                       sql_code (dict_get (relationships schema_data) [])
      in sql_code)"

text \<open>
  \<open>extract_entities\<close> of nl\_to\_sql.py builds a prompt that it never sends and returns a
  fixed description; \<open>convert\<close> synthesizes from it.
\<close>

definition nl_extract_entities :: "converter \<Rightarrow> string \<Rightarrow> schema_description" where
  "nl_extract_entities self text_description =
     \<lparr>entities = Some
        [\<lparr>entity_name = ''users'', attributes =
           [\<lparr>attr_name = ''id'', attr_type = ''INTEGER'', is_primary_key = Some True,
              is_nullable = Some False\<rparr>,
            \<lparr>attr_name = ''username'', attr_type = ''TEXT'', is_primary_key = Some False,
              is_nullable = Some False\<rparr>]\<rparr>],
      relationships = Some []\<rparr>"

definition nl_convert :: "converter \<Rightarrow> string \<Rightarrow> string" where
  "nl_convert self text_description =
     nl_generate_sql self (nl_extract_entities self text_description)"

section \<open>The SQL executor (sql\_executor.py)\<close>

text \<open>
  The database engine (\<open>sqlite3\<close>) is outside the repository and is a parameter: opening a
  database, executing one statement on a cursor, committing and reading the schema each
  either raise (\<open>Inl\<close>, with the text of the exception) or succeed.  A cursor after a
  successful \<open>execute\<close> is the pair of its column names (\<open>cursor.description\<close>) and its rows
  (\<open>cursor.fetchall()\<close>).  A statement that raises leaves the database state as it was.
\<close>

type_synonym 'row cursor = "string list \<times> 'row list"

record ('db, 'row, 'tbl) engine =
  eng_open :: "string option \<Rightarrow> string + 'db"
  eng_execute :: "'db \<Rightarrow> string \<Rightarrow> string + ('db \<times> 'row cursor)"
  eng_commit :: "'db \<Rightarrow> string + 'db"
  eng_schema :: "'db \<Rightarrow> string + 'tbl"

text \<open>
  The executor object.  \<open>db_engine\<close> comes from the request, where it is an optional string;
  an f-string prints an absent value as \<open>None\<close>.
\<close>

record 'db executor =
  db_engine :: "string option"
  db_connection :: "'db option"

definition str_of_engine :: "string option \<Rightarrow> string" where
  "str_of_engine e = (case e of None \<Rightarrow> ''None'' | Some s \<Rightarrow> s)"

text \<open>The dictionary returned by \<open>execute\<close>; the key \<open>results\<close> is present on success only.\<close>

record 'row exec_result =
  res_success :: bool
  res_message :: string
  res_log :: string
  res_results :: "'row cursor list option"

text \<open>The calls that \<open>execute\<close> makes on the cursor and the connection, in order.\<close>

datatype call = Exec string | Commit

text \<open>
  \<open>connect\<close> returns the executor, the lines it printed and its boolean result.  Every
  exception, the \<open>NotImplementedError\<close> of an unsupported engine included, is caught, printed
  and turned into \<open>False\<close>.  An empty \<open>db_name\<close> is falsy and means a temporary database.
\<close>

definition connect ::
  "('db, 'row, 'tbl) engine \<Rightarrow> 'db executor \<Rightarrow> string option
     \<Rightarrow> 'db executor \<times> string list \<times> bool" where
  "connect eng self db_name =
     (if db_engine self = Some ''sqlite'' then
        (case eng_open eng (if db_name = Some [] then None else db_name) of
           Inl e \<Rightarrow> (self, [''Error connecting to database: '' @ e], False)
         | Inr db \<Rightarrow>
             (case eng_execute eng db ''PRAGMA foreign_keys = ON'' of
                Inl e \<Rightarrow> (self\<lparr>db_connection := Some db\<rparr>,
                          [''Error connecting to database: '' @ e], False)
              | Inr (db', c) \<Rightarrow> (self\<lparr>db_connection := Some db'\<rparr>, [], True)))
      else (self,
            [''Error connecting to database: ''
               @ (''Database engine '' @ str_of_engine (db_engine self) @ '' not implemented yet'')],
            False))"

text \<open>\<open>str(n)\<close> for a natural number, and \<open>str.upper()\<close>.\<close>

fun str_nat :: "nat \<Rightarrow> string" where
  "str_nat n = (if n < 10 then [char_of (48 + n)]
                else str_nat (n div 10) @ [char_of (48 + n mod 10)])"

declare str_nat.simps [simp del]

text \<open>
  The upper-case form of a character.  The sharp s becomes two letters.  The micro sign and
  the y with diaeresis have upper-case forms beyond code point 255 and are kept as they
  are: the only use of \<open>upper\<close> is the test for the prefix \<open>SELECT\<close>, where neither form occurs.
\<close>

definition upper_char :: "char \<Rightarrow> string" where
  "upper_char c = (let n = (of_char c :: nat) in
     if 97 \<le> n \<and> n \<le> 122 then [char_of (n - 32)]
     else if n = 223 then ''SS''
     else if 224 \<le> n \<and> n \<le> 254 \<and> n \<noteq> 247 then [char_of (n - 32)]
     else [c])"

definition upper :: "string \<Rightarrow> string" where
  "upper s = concat (map upper_char s)"

text \<open>\<open>{stmt[:50]}{'...' if len(stmt) > 50 else ''}\<close>\<close>

definition short_stmt :: "string \<Rightarrow> string" where
  "short_stmt stmt = take 50 stmt @ (if length stmt > 50 then ''...'' else '''')"

text \<open>What one successfully executed statement adds to \<open>results\<close> and to \<open>log\<close>.\<close>

definition is_select :: "string \<Rightarrow> bool" where
  "is_select stmt = startswith ''SELECT'' (upper (strip stmt))"

definition stmt_results :: "string \<Rightarrow> 'row cursor \<Rightarrow> 'row cursor list" where
  "stmt_results stmt c = (if is_select stmt then [c] else [])"

definition stmt_log :: "string \<Rightarrow> 'row cursor \<Rightarrow> string list" where
  "stmt_log stmt c =
     (if is_select stmt
      then [''Successfully executed: '' @ short_stmt stmt,
            ''Retrieved '' @ str_nat (length (snd c)) @ '' rows'']
      else [''Successfully executed: '' @ short_stmt stmt])"

text \<open>
  The \<open>for stmt in statements\<close> loop with its accumulators.  \<open>Inl\<close> is the early return of
  the inner \<open>except\<close> (error text, database, log, calls); \<open>Inr\<close> is the normal end of the loop.
\<close>

fun run_statements ::
  "('db, 'row, 'tbl) engine \<Rightarrow> 'db \<Rightarrow> string list \<Rightarrow> 'row cursor list \<Rightarrow> string list
     \<Rightarrow> call list
     \<Rightarrow> (string \<times> 'db \<times> string list \<times> call list)
        + ('db \<times> 'row cursor list \<times> string list \<times> call list)" where
  "run_statements eng db [] results log calls = Inr (db, results, log, calls)"
| "run_statements eng db (stmt # stmts) results log calls =
     (if strip stmt = [] then run_statements eng db stmts results log calls
      else (case eng_execute eng db stmt of
              Inl e \<Rightarrow>
                Inl (e, db,
                     log @ [''Error executing statement: '' @ short_stmt stmt,
                            ''Error message: '' @ e],
                     calls @ [Exec stmt])
            | Inr (db', c) \<Rightarrow>
                run_statements eng db' stmts (results @ stmt_results stmt c)
                  (log @ stmt_log stmt c) (calls @ [Exec stmt])))"

text \<open>
  \<open>execute\<close> once a connection \<open>db\<close> is at hand: split, run the loop, commit.  A commit that
  raises is caught by the outer \<open>except\<close>.
\<close>

definition execute_on ::
  "('db, 'row, 'tbl) engine \<Rightarrow> 'db executor \<Rightarrow> 'db \<Rightarrow> string
     \<Rightarrow> 'db executor \<times> call list \<times> 'row exec_result" where
  "execute_on eng self db sql_code =
     (case run_statements eng db (split_sql_statements sql_code) [] [] [] of
        Inl (e, db', log, calls) \<Rightarrow>
          (self\<lparr>db_connection := Some db'\<rparr>, calls,
           \<lparr>res_success = False, res_message = e, res_log = join ''\<newline>'' log,
            res_results = None\<rparr>)
      | Inr (db', results, log, calls) \<Rightarrow>
          (case eng_commit eng db' of
             Inl e \<Rightarrow>
               (self\<lparr>db_connection := Some db'\<rparr>, calls @ [Commit],
                \<lparr>res_success = False, res_message = e, res_log = join ''\<newline>'' log,
                 res_results = None\<rparr>)
           | Inr db'' \<Rightarrow>
               (self\<lparr>db_connection := Some db''\<rparr>, calls @ [Commit],
                \<lparr>res_success = True, res_message = ''SQL execution completed successfully'',
                 res_log = join ''\<newline>'' log, res_results = Some results\<rparr>)))"

text \<open>
  \<open>execute\<close>: the executor afterwards, the calls made, the lines printed and the returned
  dictionary.  \<open>Inl\<close> is an exception that leaves \<open>execute\<close>: taking the cursor of a missing
  connection, outside the \<open>try\<close>.
\<close>

definition execute ::
  "('db, 'row, 'tbl) engine \<Rightarrow> 'db executor \<Rightarrow> string
     \<Rightarrow> string + ('db executor \<times> call list \<times> string list \<times> 'row exec_result)" where
  "execute eng self sql_code =
     (case db_connection self of
        Some db \<Rightarrow>
          (case execute_on eng self db sql_code of (self', calls, r) \<Rightarrow> Inr (self', calls, [], r))
      | None \<Rightarrow>
          (case connect eng self None of (self1, printed, connected) \<Rightarrow>
             if \<not> connected
             then Inr (self1, [], printed,
                       \<lparr>res_success = False, res_message = ''Failed to connect to database'',
                        res_log = '''', res_results = None\<rparr>)
             else (case db_connection self1 of
                     None \<Rightarrow> Inl ''AttributeError''
                   | Some db \<Rightarrow>
                       (case execute_on eng self1 db sql_code of
                          (self', calls, r) \<Rightarrow> Inr (self', calls, printed, r)))))"

text \<open>\<open>get_schema\<close>: \<open>Inl\<close> is the dictionary with \<open>success = False\<close> and its message.\<close>

definition get_schema :: "('db, 'row, 'tbl) engine \<Rightarrow> 'db executor \<Rightarrow> string + 'tbl" where
  "get_schema eng self =
     (case db_connection self of
        None \<Rightarrow> Inl ''Not connected to a database''
      | Some db \<Rightarrow> eng_schema eng db)"

section \<open>The request handler for SQL execution (app.py)\<close>

record 'row sql_response =
  resp_sql_code :: string
  resp_execution_log :: "string option"
  resp_error :: "string option"
  resp_results :: "'row cursor list option"

text \<open>
  \<open>execute_sql\<close>: a fresh executor per request.  \<open>Inl\<close> is the \<open>HTTPException\<close> with status
  500 and the text of the exception.
\<close>

definition execute_sql ::
  "('db, 'row, 'tbl) engine \<Rightarrow> string option \<Rightarrow> string \<Rightarrow> (nat \<times> string) + 'row sql_response" where
  "execute_sql eng request_db_engine request_sql_code =
     (case execute eng \<lparr>db_engine = request_db_engine, db_connection = None\<rparr> request_sql_code of
        Inl e \<Rightarrow> Inl (500, e)
      | Inr (self', calls, printed, result) \<Rightarrow>
          if res_success result
          then Inr \<lparr>resp_sql_code = request_sql_code,
                    resp_execution_log = Some (res_log result), resp_error = None,
                    resp_results = Some (dict_get (res_results result) [])\<rparr>
          else Inr \<lparr>resp_sql_code = request_sql_code,
                    resp_execution_log = Some (res_log result),
                    resp_error = Some (res_message result), resp_results = None\<rparr>)"

section \<open>Notions used to state the behaviour of \<open>execute\<close>\<close>



text \<open>
  A small engine for concrete runs.  Its state counts pending violations of a deferred
  constraint: a statement starting with \<open>INSERT\<close> adds one, and a commit with pending
  violations raises, as SQLite does for a deferred foreign key, which is checked at
  \<open>COMMIT\<close>.  A statement starting with \<open>DROP\<close> raises; every other statement succeeds.
\<close>

definition deferred_engine :: "(nat, string list, unit) engine" where
  "deferred_engine =
     \<lparr>eng_open = (\<lambda>name. Inr 0),
      eng_execute = (\<lambda>db stmt.
         if startswith ''DROP'' stmt then Inl ''no such table''
         else Inr (if startswith ''INSERT'' stmt then db + 1 else db, ([], []))),
      eng_commit = (\<lambda>db. if db > 0 then Inl ''FOREIGN KEY constraint failed'' else Inr 0),
      eng_schema = (\<lambda>db. Inr ())\<rparr>"

section \<open>Name sanitizers (helpers.py)\<close>

text \<open>
  \<open>sanitize_table_name\<close> and \<open>sanitize_column_name\<close> classify characters with the Unicode
  character database of the Python runtime: the class \<open>\w\<close> of \<open>re\<close> (alphanumeric or
  underscore), \<open>str.lower\<close> and \<open>str.isdigit\<close>.  Here a string is the list of its code
  points.  The ASCII part of the database is fixed below; its part beyond ASCII is a
  parameter.  \<open>str.lower\<close> is taken character by character: one character may become
  several.
\<close>

record ucd =
  ext_isalnum :: "nat \<Rightarrow> bool"
  ext_isdigit :: "nat \<Rightarrow> bool"
  ext_lower :: "nat \<Rightarrow> nat list"

definition isalnum :: "ucd \<Rightarrow> nat \<Rightarrow> bool" where
  "isalnum u c = (if c < 128
     then (48 \<le> c \<and> c \<le> 57) \<or> (65 \<le> c \<and> c \<le> 90) \<or> (97 \<le> c \<and> c \<le> 122)
     else ext_isalnum u c)"

definition isdigit :: "ucd \<Rightarrow> nat \<Rightarrow> bool" where
  "isdigit u c = (if c < 128 then 48 \<le> c \<and> c \<le> 57 else ext_isdigit u c)"

definition lower_char :: "ucd \<Rightarrow> nat \<Rightarrow> nat list" where
  "lower_char u c = (if c < 128 then [if 65 \<le> c \<and> c \<le> 90 then c + 32 else c]
                     else ext_lower u c)"

definition lower :: "ucd \<Rightarrow> nat list \<Rightarrow> nat list" where
  "lower u s = concat (map (lower_char u) s)"

text \<open>The class \<open>\w\<close>; 95 is the underscore.\<close>

definition is_word :: "ucd \<Rightarrow> nat \<Rightarrow> bool" where
  "is_word u c = (isalnum u c \<or> c = 95)"

text \<open>\<open>re.sub(r'[^\w]', '_', name)\<close>\<close>

definition sub_nonword :: "ucd \<Rightarrow> nat list \<Rightarrow> nat list" where
  "sub_nonword u name = map (\<lambda>c. if is_word u c then c else 95) name"

datatype error = IndexError

text \<open>
  \<open>name[0]\<close> raises \<open>IndexError\<close> on the empty string.  The prefixes are \<open>t_\<close> (116, 95) and
  \<open>c_\<close> (99, 95).
\<close>

definition sanitize_table_name :: "ucd \<Rightarrow> nat list \<Rightarrow> error + nat list" where
  "sanitize_table_name u name =
     (let name = lower u (sub_nonword u name) in
      case name of
        [] \<Rightarrow> Inl IndexError
      | c # cs \<Rightarrow> Inr (if isdigit u c then [116, 95] @ name else name))"

definition sanitize_column_name :: "ucd \<Rightarrow> nat list \<Rightarrow> error + nat list" where
  "sanitize_column_name u name =
     (let name = lower u (sub_nonword u name) in
      case name of
        [] \<Rightarrow> Inl IndexError
      | c # cs \<Rightarrow> Inr (if isdigit u c then [99, 95] @ name else name))"

text \<open>
  A database holding, beyond ASCII, the entry of U+0130 (304, the capital I with dot
  above): a letter whose lower-case form is \<open>i\<close> followed by the combining dot U+0307
  (775), which is not alphanumeric.
\<close>

definition dotted_I_ucd :: ucd where
  "dotted_I_ucd =
     \<lparr>ext_isalnum = (\<lambda>c. c = 304),
      ext_isdigit = (\<lambda>c. False),
      ext_lower = (\<lambda>c. if c = 304 then [105, 775] else [c])\<rparr>"

section \<open>Facts about the string primitives\<close>

lemma strip_set: "set (strip s) \<subseteq> set s"
proof -
  have "set (strip s) = set (dropWhile isspace (rev (dropWhile isspace s)))"
    by (simp add: strip_def)
  also have "\<dots> \<subseteq> set (rev (dropWhile isspace s))" by (rule set_dropWhileD[THEN subsetI]) 
  also have "\<dots> \<subseteq> set s" using set_dropWhileD by fastforce
  finally show ?thesis .
qed

lemma strip_Nil: "strip [] = []"
  by (simp add: strip_def)

lemma strip_empty_iff: "strip s = [] \<longleftrightarrow> (\<forall>c \<in> set s. isspace c)"
proof
  define d where "d = dropWhile isspace s"
  assume "strip s = []"
  then have "dropWhile isspace (rev d) = []" by (simp add: strip_def d_def)
  then have "\<forall>c \<in> set d. isspace c" by (simp add: dropWhile_eq_Nil_conv)
  moreover have "d \<noteq> [] \<Longrightarrow> \<not> isspace (hd d)"
    unfolding d_def by (rule hd_dropWhile)
  ultimately have "d = []" using hd_in_set by blast
  then show "\<forall>c \<in> set s. isspace c" by (simp add: d_def dropWhile_eq_Nil_conv)
next
  assume "\<forall>c \<in> set s. isspace c"
  then have "dropWhile isspace s = []" by (induction s) simp_all
  then have "strip s = rev (dropWhile isspace (rev []))" by (simp only: strip_def)
  then show "strip s = []" by simp
qed

lemma strip_hd: assumes "strip s \<noteq> []" shows "\<not> isspace (hd (strip s))"
proof -
  define d where "d = dropWhile isspace s"
  define e where "e = dropWhile isspace (rev d)"
  have se: "strip s = rev e" by (simp add: strip_def d_def e_def)
  with assms have e: "e \<noteq> []" by simp
  have d: "d \<noteq> []"
  proof
    assume "d = []"
    then have "e = []" by (simp add: e_def)
    with e show False by simp
  qed
  have "rev d = takeWhile isspace (rev d) @ e" by (simp add: e_def)
  then have "d = rev e @ rev (takeWhile isspace (rev d))"
    by (metis rev_append rev_rev_ident)
  then have "hd d = hd (rev e)" using e by (metis hd_append2 rev_is_Nil_conv)
  moreover have "\<not> isspace (hd d)" using d unfolding d_def by (rule hd_dropWhile)
  ultimately show ?thesis by (simp add: se)
qed

lemma strip_last: assumes "strip s \<noteq> []" shows "\<not> isspace (last (strip s))"
proof -
  let ?e = "dropWhile isspace (rev (dropWhile isspace s))"
  from assms have e: "?e \<noteq> []" by (simp add: strip_def)
  then have "\<not> isspace (hd ?e)" by (rule hd_dropWhile)
  moreover have "last (rev ?e) = hd ?e" using e by (simp add: last_rev)
  ultimately show ?thesis by (simp add: strip_def)
qed

lemma strip_fixed:
  assumes "s \<noteq> []" "\<not> isspace (hd s)" "\<not> isspace (last s)"
  shows "strip s = s"
proof -
  from assms have 1: "dropWhile isspace s = s" by (cases s) auto
  from assms have "rev s \<noteq> []" "\<not> isspace (hd (rev s))" by (simp_all add: hd_rev)
  then have "dropWhile isspace (rev s) = rev s" by (cases "rev s") auto
  with 1 show ?thesis by (simp add: strip_def)
qed

lemma strip_idem: "strip (strip s) = strip s"
proof (cases "strip s = []")
  case True
  then show ?thesis by (simp only: strip_Nil)
next
  case False
  then show ?thesis by (intro strip_fixed strip_hd strip_last)
qed

lemma isspace_blank: "isspace CHR '' ''"
  by (simp add: isspace_def)

lemma strip_lead_blank: "strip ('' '' @ s) = strip s"
  by (simp add: strip_def isspace_blank)

lemma split_lines_nonempty: "split_lines s \<noteq> []"
  by (induction s) (auto split: list.splits)

lemma split_lines_no_newline: "l \<in> set (split_lines s) \<Longrightarrow> CHR 0x0A \<notin> set l"
proof (induction s arbitrary: l)
  case Nil
  then show ?case by simp
next
  case (Cons c cs)
  show ?case
  proof (cases "c = CHR 0x0A")
    case True
    with Cons show ?thesis by auto
  next
    case False
    obtain k ks where ks: "split_lines cs = k # ks"
      using split_lines_nonempty[of cs] by (cases "split_lines cs") auto
    with False Cons.prems have "l = c # k \<or> l \<in> set ks" by auto
    then show ?thesis using Cons.IH[of k] Cons.IH[of l] ks False by auto
  qed
qed

section \<open>Properties of the statement splitter\<close>

lemma split_step_unfold:
  "split_step (statements, current_statement) raw =
     (if startswith ''--'' (strip raw) \<or> startswith ''#'' (strip raw) \<or> strip raw = []
      then (statements, current_statement)
      else if endswith '';'' (strip raw)
        then (statements @ [strip (current_statement @ '' '' @ strip raw)], [])
        else (statements, current_statement @ '' '' @ strip raw))"
  by (simp only: split_step_def Let_def prod.case)

lemma strip_buffer_nonempty:
  assumes "strip raw \<noteq> []"
  shows "strip (current_statement @ '' '' @ strip raw) \<noteq> []"
proof -
  have "\<not> isspace (hd (strip raw))" using assms by (rule strip_hd)
  moreover have "hd (strip raw) \<in> set (current_statement @ '' '' @ strip raw)"
    using assms by simp
  ultimately show ?thesis using strip_empty_iff by blast
qed

lemma split_step_clean:
  assumes raw: "CHR 0x0A \<notin> set raw"
    and sts: "\<forall>x \<in> set statements. x \<noteq> [] \<and> strip x = x \<and> CHR 0x0A \<notin> set x"
    and cur: "CHR 0x0A \<notin> set current_statement"
    and step: "split_step (statements, current_statement) raw = (statements', current')"
  shows "(\<forall>x \<in> set statements'. x \<noteq> [] \<and> strip x = x \<and> CHR 0x0A \<notin> set x)
         \<and> CHR 0x0A \<notin> set current'"
proof -
  let ?new = "current_statement @ '' '' @ strip raw"
  have "CHR 0x0A \<notin> set (strip raw)" using raw strip_set[of raw] by auto
  then have nl_new: "CHR 0x0A \<notin> set ?new" using cur by simp
  then have nl_strip: "CHR 0x0A \<notin> set (strip ?new)" using strip_set[of ?new] by blast
  consider (skip) "statements' = statements" "current' = current_statement"
    | (flush) "strip raw \<noteq> []" "statements' = statements @ [strip ?new]" "current' = []"
    | (keep) "statements' = statements" "current' = ?new"
    using step unfolding split_step_unfold by (auto split: if_splits)
  then show ?thesis
  proof cases
    case skip
    then show ?thesis using sts cur by simp
  next
    case flush
    have "strip ?new \<noteq> []" using flush(1) by (rule strip_buffer_nonempty)
    moreover have "strip (strip ?new) = strip ?new" by (rule strip_idem)
    ultimately show ?thesis using sts nl_strip flush(2,3) by auto
  next
    case keep
    then show ?thesis using sts nl_new by simp
  qed
qed

lemma foldl_split_step_clean:
  assumes "\<forall>raw \<in> set raws. CHR 0x0A \<notin> set raw"
    and "\<forall>x \<in> set (fst st). x \<noteq> [] \<and> strip x = x \<and> CHR 0x0A \<notin> set x"
    and "CHR 0x0A \<notin> set (snd st)"
  shows "(\<forall>x \<in> set (fst (foldl split_step st raws)).
            x \<noteq> [] \<and> strip x = x \<and> CHR 0x0A \<notin> set x)
         \<and> CHR 0x0A \<notin> set (snd (foldl split_step st raws))"
  using assms
proof (induction raws arbitrary: st)
  case Nil
  then show ?case by simp
next
  case (Cons raw raws)
  obtain a b where st: "st = (a, b)" by (cases st)
  obtain a' b' where s': "split_step (a, b) raw = (a', b')" by (cases "split_step (a, b) raw")
  have raw: "CHR 0x0A \<notin> set raw" using Cons.prems(1) by simp
  have raws: "\<forall>raw \<in> set raws. CHR 0x0A \<notin> set raw" using Cons.prems(1) by simp
  have a: "\<forall>x \<in> set a. x \<noteq> [] \<and> strip x = x \<and> CHR 0x0A \<notin> set x"
    using Cons.prems(2) unfolding st fst_conv .
  have b: "CHR 0x0A \<notin> set b" using Cons.prems(3) unfolding st snd_conv .
  have inv: "(\<forall>x \<in> set a'. x \<noteq> [] \<and> strip x = x \<and> CHR 0x0A \<notin> set x) \<and> CHR 0x0A \<notin> set b'"
    by (rule split_step_clean[OF raw a b s'])
  have unf: "foldl split_step st (raw # raws) = foldl split_step (a', b') raws"
    unfolding st foldl_Cons s' ..
  have "(\<forall>x \<in> set (fst (foldl split_step (a', b') raws)).
            x \<noteq> [] \<and> strip x = x \<and> CHR 0x0A \<notin> set x)
         \<and> CHR 0x0A \<notin> set (snd (foldl split_step (a', b') raws))"
  proof (rule Cons.IH[OF raws])
    show "\<forall>x \<in> set (fst (a', b')). x \<noteq> [] \<and> strip x = x \<and> CHR 0x0A \<notin> set x"
      unfolding fst_conv using inv ..
    show "CHR 0x0A \<notin> set (snd (a', b'))"
      unfolding snd_conv using inv ..
  qed
  then show ?case unfolding unf .
qed

lemma split_statements_tidy:
  assumes "stmt \<in> set (split_sql_statements sql_code)"
  shows "stmt \<noteq> [] \<and> \<not> isspace (hd stmt) \<and> \<not> isspace (last stmt)
         \<and> CHR 0x0A \<notin> set stmt \<and> strip stmt \<noteq> []"
proof -
  define r where "r = foldl split_step ([], []) (split_lines sql_code)"
  have inv: "(\<forall>x \<in> set (fst r). x \<noteq> [] \<and> strip x = x \<and> CHR 0x0A \<notin> set x)
             \<and> CHR 0x0A \<notin> set (snd r)"
    unfolding r_def by (rule foldl_split_step_clean) (auto dest: split_lines_no_newline)
  have "stmt \<in> set (fst r) \<or> (stmt = strip (snd r) \<and> strip (snd r) \<noteq> [])"
    using assms by (auto simp: split_sql_statements_def r_def[symmetric] split: prod.splits if_splits)
  then have g: "stmt \<noteq> [] \<and> strip stmt = stmt \<and> CHR 0x0A \<notin> set stmt"
    using inv strip_set[of "snd r"] strip_idem[of "snd r"] by auto
  then have "\<not> isspace (hd stmt)" "\<not> isspace (last stmt)"
    using strip_hd[of stmt] strip_last[of stmt] by simp_all
  with g show ?thesis by simp
qed

text \<open>
  Claim C10: every statement returned by the splitter is non-empty, carries no leading or
  trailing whitespace and no newline character, so its stripped text is non-empty and the
  guard \<open>if not stmt.strip(): continue\<close> of \<open>execute\<close> never skips it.
\<close>

theorem split_statements_clean:
  assumes "stmt \<in> set (split_sql_statements sql_code)"
  shows "stmt \<noteq> [] \<and> \<not> isspace (hd stmt) \<and> \<not> isspace (last stmt)
         \<and> CHR 0x0A \<notin> set stmt \<and> strip stmt \<noteq> []"
  using assms by (rule split_statements_tidy)

lemma split_example:
  "split_sql_statements ''SELECT 1;\<newline>-- comment\<newline>SELECT 2;'' = [''SELECT 1;'', ''SELECT 2;'']"
  by (simp add: split_sql_statements_def split_step_def strip_def isspace_def
      startswith_def endswith_def)

theorem split_statements_clean_witness:
  "''SELECT 2;'' \<in> set (split_sql_statements ''SELECT 1;\<newline>-- comment\<newline>SELECT 2;'')
   \<and> (''SELECT 2;'' \<noteq> [] \<and> \<not> isspace (hd ''SELECT 2;'') \<and> \<not> isspace (last ''SELECT 2;'')
   \<and> CHR 0x0A \<notin> set ''SELECT 2;'' \<and> strip ''SELECT 2;'' \<noteq> [])"
proof -
  have h: "''SELECT 2;'' \<in> set (split_sql_statements ''SELECT 1;\<newline>-- comment\<newline>SELECT 2;'')"
    by (simp only: split_example) simp
  from h split_statements_clean[OF h] show ?thesis by (rule conjI)
qed

section \<open>The splitter meets its description\<close>

lemma join_buffer: "join '' '' (l # ls) = l @ buffer_of ls"
  by (induction ls arbitrary: l) (simp_all add: buffer_of_def)

lemma buffer_snoc: "buffer_of (buf @ [l]) = buffer_of buf @ '' '' @ l"
  by (simp add: buffer_of_def)

lemma buffer_last:
  assumes "ls \<noteq> []" "\<forall>l \<in> set ls. l \<noteq> []"
  shows "buffer_of ls \<noteq> [] \<and> last (buffer_of ls) = last (last ls)"
proof -
  obtain ks k where ls: "ls = ks @ [k]" using assms(1) by (cases ls rule: rev_cases) auto
  then have "k \<noteq> []" using assms(2) by simp
  then show ?thesis unfolding ls buffer_snoc by simp
qed

lemma strip_buffer:
  assumes ne: "buf \<noteq> []"
    and tidy: "\<forall>l \<in> set buf. l \<noteq> [] \<and> \<not> isspace (hd l) \<and> \<not> isspace (last l)"
  shows "strip (buffer_of buf) = join '' '' buf \<and> join '' '' buf \<noteq> []"
proof -
  obtain l ls where buf: "buf = l # ls" using ne by (cases buf) auto
  let ?x = "l @ buffer_of ls"
  have l: "l \<noteq> []" "\<not> isspace (hd l)" "\<not> isspace (last l)" using tidy buf by simp_all
  have x_ne: "?x \<noteq> []" using l(1) by simp
  have x_hd: "\<not> isspace (hd ?x)" using l(1,2) by simp
  have x_last: "\<not> isspace (last ?x)"
  proof (cases "ls = []")
    case True
    then show ?thesis using l(3) by (simp add: buffer_of_def)
  next
    case False
    have all: "\<forall>k \<in> set ls. k \<noteq> []" using tidy buf by simp
    have "last ?x = last (last ls)" using buffer_last[OF False all] by simp
    moreover have "last ls \<in> set ls" using False by simp
    ultimately show ?thesis using tidy buf by auto
  qed
  have "buffer_of buf = '' '' @ ?x" by (simp add: buf buffer_of_def)
  then have "strip (buffer_of buf) = strip ?x" by (simp only: strip_lead_blank)
  also have "\<dots> = ?x" using x_ne x_hd x_last by (rule strip_fixed)
  finally show ?thesis using x_ne by (simp only: buf join_buffer) simp
qed

lemma final_flush_groups:
  assumes tidy: "\<forall>l \<in> set buf. l \<noteq> [] \<and> \<not> isspace (hd l) \<and> \<not> isspace (last l)"
  shows "final_flush (statements, buffer_of buf)
         = statements @ map (join '' '') (spec_groups buf [])"
proof (cases "buf = []")
  case True
  then show ?thesis by (simp add: final_flush_def buffer_of_def strip_Nil)
next
  case False
  from strip_buffer[OF False tidy] show ?thesis
    using False by (simp add: final_flush_def)
qed

lemma split_loop_groups:
  assumes "\<forall>l \<in> set buf. l \<noteq> [] \<and> \<not> isspace (hd l) \<and> \<not> isspace (last l)"
  shows "final_flush (foldl split_step (statements, buffer_of buf) raws)
         = statements @ map (join '' '')
             (spec_groups buf
               (filter (\<lambda>l. l \<noteq> [] \<and> \<not> startswith ''--'' l \<and> \<not> startswith ''#'' l)
                  (map strip raws)))"
  using assms
proof (induction raws arbitrary: statements buf)
  case Nil
  then show ?case by (simp only: foldl_Nil list.map filter.simps final_flush_groups)
next
  case (Cons raw raws)
  let ?keep = "\<lambda>l. l \<noteq> [] \<and> \<not> startswith ''--'' l \<and> \<not> startswith ''#'' l"
  let ?line = "strip raw"
  show ?case
  proof (cases "?keep ?line")
    case False
    then have step: "split_step (statements, buffer_of buf) raw = (statements, buffer_of buf)"
      unfolding split_step_unfold by auto
    have flt: "filter ?keep (map strip (raw # raws)) = filter ?keep (map strip raws)"
      using False by simp
    show ?thesis unfolding foldl_Cons step flt by (rule Cons.IH[OF Cons.prems])
  next
    case True
    then have ne: "?line \<noteq> []" by simp
    have tidy': "\<forall>l \<in> set (buf @ [?line]). l \<noteq> [] \<and> \<not> isspace (hd l) \<and> \<not> isspace (last l)"
      using Cons.prems ne strip_hd[OF ne] strip_last[OF ne] by simp
    have flt: "filter ?keep (map strip (raw # raws)) = ?line # filter ?keep (map strip raws)"
      using True by simp
    show ?thesis
    proof (cases "endswith '';'' ?line")
      case e: True
      have step: "split_step (statements, buffer_of buf) raw
                  = (statements @ [strip (buffer_of (buf @ [?line]))], buffer_of [])"
        using True e unfolding split_step_unfold buffer_snoc by (simp add: buffer_of_def)
      have s: "strip (buffer_of (buf @ [?line])) = join '' '' (buf @ [?line])"
        using strip_buffer[OF _ tidy'] by simp
      have "final_flush (foldl split_step (statements @ [join '' '' (buf @ [?line])], buffer_of []) raws)
            = (statements @ [join '' '' (buf @ [?line])]) @ map (join '' '')
                (spec_groups [] (filter ?keep (map strip raws)))"
        by (rule Cons.IH) simp
      then show ?thesis unfolding foldl_Cons step flt s using e by simp
    next
      case e: False
      have step: "split_step (statements, buffer_of buf) raw = (statements, buffer_of (buf @ [?line]))"
        using True e unfolding split_step_unfold buffer_snoc by simp
      have "final_flush (foldl split_step (statements, buffer_of (buf @ [?line])) raws)
            = statements @ map (join '' '')
                (spec_groups (buf @ [?line]) (filter ?keep (map strip raws)))"
        by (rule Cons.IH[OF tidy'])
      then show ?thesis unfolding foldl_Cons step flt using e by simp
    qed
  qed
qed

text \<open>
  Claim C6: the splitter computes what its description says.  The lines are stripped;
  blank lines and lines starting with \<open>--\<close> or \<open>#\<close> are dropped; the others are
  collected, a group being closed at every line that ends in a semicolon and once more at
  the end when lines remain; every group is joined with single blanks.  On the three lines
  \<open>SELECT 1;\<close>, \<open>-- comment\<close>, \<open>SELECT 2;\<close> the result is the two statements.
\<close>

theorem split_meets_description:
  "split_sql_statements sql_code = spec_split sql_code
   \<and> split_sql_statements ''SELECT 1;\<newline>-- comment\<newline>SELECT 2;'' = [''SELECT 1;'', ''SELECT 2;'']"
proof
  have "split_sql_statements sql_code
        = final_flush (foldl split_step ([], buffer_of []) (split_lines sql_code))"
    by (simp add: split_sql_statements_def final_flush_def buffer_of_def)
  also have "\<dots> = [] @ map (join '' '') (spec_groups [] (kept_lines sql_code))"
    unfolding kept_lines_def by (rule split_loop_groups) simp
  finally show "split_sql_statements sql_code = spec_split sql_code"
    by (simp add: spec_split_def)
  show "split_sql_statements ''SELECT 1;\<newline>-- comment\<newline>SELECT 2;'' = [''SELECT 1;'', ''SELECT 2;'']"
    by (rule split_example)
qed

section \<open>Properties of SQL synthesis\<close>

lemma foldl_append_concat:
  "foldl (\<lambda>acc x. acc @ f x) init xs = init @ concat (map f xs)"
  by (induction xs arbitrary: init) simp_all

lemma column_step_unfold:
  "column_step (columns, primary_keys) attr =
     (columns @ [''    '' @ attr_name attr @ '' '' @ attr_type attr
                   @ (if dict_get (is_nullable attr) True then '''' else '' NOT NULL'')],
      primary_keys @ (if dict_get (is_primary_key attr) False then [attr_name attr] else []))"
  by (simp add: column_step_def Let_def)

lemma column_loop:
  "foldl column_step (columns, primary_keys) attrs =
     (columns @ map (\<lambda>a. ''    '' @ attr_name a @ '' '' @ attr_type a
                        @ (if dict_get (is_nullable a) True then '''' else '' NOT NULL'')) attrs,
      primary_keys @ map attr_name (filter (\<lambda>a. dict_get (is_primary_key a) False) attrs))"
proof (induction attrs arbitrary: columns primary_keys)
  case Nil
  show ?case by simp
next
  case (Cons a attrs)
  show ?case unfolding foldl_Cons column_step_unfold Cons.IH by simp
qed

lemma create_table_clauses_shape:
  "create_table_clauses attrs =
     map (\<lambda>a. ''    '' @ attr_name a @ '' '' @ attr_type a
                @ (if dict_get (is_nullable a) True then '''' else '' NOT NULL'')) attrs
     @ (if \<exists>a \<in> set attrs. dict_get (is_primary_key a) False
        then [''    PRIMARY KEY (''
               @ join '', '' (map attr_name (filter (\<lambda>a. dict_get (is_primary_key a) False) attrs))
               @ '')'']
        else [])"
proof -
  have "foldl column_step ([], []) attrs =
     (map (\<lambda>a. ''    '' @ attr_name a @ '' '' @ attr_type a
                        @ (if dict_get (is_nullable a) True then '''' else '' NOT NULL'')) attrs,
      map attr_name (filter (\<lambda>a. dict_get (is_primary_key a) False) attrs))"
    using column_loop[of "[]" "[]" attrs] by simp
  then show ?thesis
    by (simp add: create_table_clauses_def filter_empty_conv)
qed

text \<open>
  Claim C2: for an entity with N attributes the list of clauses joined into the
  \<open>CREATE TABLE\<close> statement consists of N column clauses, in attribute order, each being
  the name, one blank and the type, followed by \<open>NOT NULL\<close> exactly when
  \<open>is_nullable\<close> is false; one \<open>PRIMARY KEY\<close> clause listing the primary-key names in
  attribute order follows exactly when some attribute is a primary key.  Both converters
  wrap the joined clauses in the same \<open>CREATE TABLE\<close> text.
\<close>

theorem create_table_shape:
  "create_table_clauses attrs =
     map (\<lambda>a. ''    '' @ attr_name a @ '' '' @ attr_type a
                @ (if dict_get (is_nullable a) True then '''' else '' NOT NULL'')) attrs
     @ (if \<exists>a \<in> set attrs. dict_get (is_primary_key a) False
        then [''    PRIMARY KEY (''
               @ join '', '' (map attr_name (filter (\<lambda>a. dict_get (is_primary_key a) False) attrs))
               @ '')'']
        else [])
   \<and> length (create_table_clauses attrs)
       = length attrs + (if \<exists>a \<in> set attrs. dict_get (is_primary_key a) False then 1 else 0)
   \<and> nl_generate_create_table self \<lparr>entity_name = name, attributes = attrs\<rparr>
       = ''CREATE TABLE '' @ name @ '' (\<newline>''
         @ join '',\<newline>'' (create_table_clauses attrs) @ ''\<newline>);\<newline>\<newline>''
   \<and> er_generate_create_table self \<lparr>entity_name = name, attributes = attrs\<rparr>
       = ''CREATE TABLE '' @ name @ '' (\<newline>''
         @ join '',\<newline>'' (create_table_clauses attrs) @ ''\<newline>);\<newline>\<newline>''"
proof (intro conjI)
  show "create_table_clauses attrs =
     map (\<lambda>a. ''    '' @ attr_name a @ '' '' @ attr_type a
                @ (if dict_get (is_nullable a) True then '''' else '' NOT NULL'')) attrs
     @ (if \<exists>a \<in> set attrs. dict_get (is_primary_key a) False
        then [''    PRIMARY KEY (''
               @ join '', '' (map attr_name (filter (\<lambda>a. dict_get (is_primary_key a) False) attrs))
               @ '')'']
        else [])"
    by (rule create_table_clauses_shape)
  show "length (create_table_clauses attrs)
       = length attrs + (if \<exists>a \<in> set attrs. dict_get (is_primary_key a) False then 1 else 0)"
    unfolding create_table_clauses_shape by simp
  show "nl_generate_create_table self \<lparr>entity_name = name, attributes = attrs\<rparr>
       = ''CREATE TABLE '' @ name @ '' (\<newline>''
         @ join '',\<newline>'' (create_table_clauses attrs) @ ''\<newline>);\<newline>\<newline>''"
    by (simp add: nl_generate_create_table_def Let_def)
  show "er_generate_create_table self \<lparr>entity_name = name, attributes = attrs\<rparr>
       = ''CREATE TABLE '' @ name @ '' (\<newline>''
         @ join '',\<newline>'' (create_table_clauses attrs) @ ''\<newline>);\<newline>\<newline>''"
    by (simp add: er_generate_create_table_def Let_def)
qed

lemma junction_table_text:
  "junction_table e1 e2 =
     ''CREATE TABLE '' @ e1 @ ''_'' @ e2 @ '' (\<newline>''
     @ join '',\<newline>''
         [''    '' @ e1 @ ''_id INTEGER NOT NULL'',
          ''    '' @ e2 @ ''_id INTEGER NOT NULL'',
          ''    PRIMARY KEY ('' @ e1 @ ''_id, '' @ e2 @ ''_id)'',
          ''    FOREIGN KEY ('' @ e1 @ ''_id) REFERENCES '' @ e1 @ '' (id)'',
          ''    FOREIGN KEY ('' @ e2 @ ''_id) REFERENCES '' @ e2 @ '' (id)'']
     @ ''\<newline>);\<newline>\<newline>''"
  by (simp add: junction_table_def Let_def)

text \<open>
  Claim C3: for a \<open>many_to_many\<close> relationship both converters emit the junction table
  named entity1, underscore, entity2, whose body is exactly five clauses: the two columns
  \<open>entity1_id\<close> and \<open>entity2_id\<close>, both \<open>INTEGER NOT NULL\<close>, the composite primary key
  over both, and two foreign keys referencing the \<open>id\<close> column of each parent table.
\<close>

theorem many_to_many_junction:
  assumes "rel_type r = Some ''many_to_many''"
  shows "nl_generate_relationship self r
         = junction_table (dict_get (entity1 r) '''') (dict_get (entity2 r) '''')
       \<and> er_generate_relationship self' r
         = junction_table (dict_get (entity1 r) '''') (dict_get (entity2 r) '''')
       \<and> junction_table e1 e2 =
           ''CREATE TABLE '' @ e1 @ ''_'' @ e2 @ '' (\<newline>''
           @ join '',\<newline>''
               [''    '' @ e1 @ ''_id INTEGER NOT NULL'',
                ''    '' @ e2 @ ''_id INTEGER NOT NULL'',
                ''    PRIMARY KEY ('' @ e1 @ ''_id, '' @ e2 @ ''_id)'',
                ''    FOREIGN KEY ('' @ e1 @ ''_id) REFERENCES '' @ e1 @ '' (id)'',
                ''    FOREIGN KEY ('' @ e2 @ ''_id) REFERENCES '' @ e2 @ '' (id)'']
           @ ''\<newline>);\<newline>\<newline>''"
proof (intro conjI)
  show "nl_generate_relationship self r
         = junction_table (dict_get (entity1 r) '''') (dict_get (entity2 r) '''')"
    using assms by (simp add: nl_generate_relationship_def dict_get_def Let_def)
  show "er_generate_relationship self' r
         = junction_table (dict_get (entity1 r) '''') (dict_get (entity2 r) '''')"
    using assms by (simp add: er_generate_relationship_def dict_get_def Let_def)
  show "junction_table e1 e2 =
           ''CREATE TABLE '' @ e1 @ ''_'' @ e2 @ '' (\<newline>''
           @ join '',\<newline>''
               [''    '' @ e1 @ ''_id INTEGER NOT NULL'',
                ''    '' @ e2 @ ''_id INTEGER NOT NULL'',
                ''    PRIMARY KEY ('' @ e1 @ ''_id, '' @ e2 @ ''_id)'',
                ''    FOREIGN KEY ('' @ e1 @ ''_id) REFERENCES '' @ e1 @ '' (id)'',
                ''    FOREIGN KEY ('' @ e2 @ ''_id) REFERENCES '' @ e2 @ '' (id)'']
           @ ''\<newline>);\<newline>\<newline>''"
    by (rule junction_table_text)
qed

theorem many_to_many_junction_witness:
  "nl_generate_relationship \<lparr>conv_db_engine = ''sqlite''\<rparr>
     \<lparr>rel_type = Some ''many_to_many'', entity1 = Some ''a'', entity2 = Some ''b'',
      rel_attributes = []\<rparr>
   = ''CREATE TABLE a_b (\<newline>    a_id INTEGER NOT NULL,\<newline>    b_id INTEGER NOT NULL,\<newline>    PRIMARY KEY (a_id, b_id),\<newline>    FOREIGN KEY (a_id) REFERENCES a (id),\<newline>    FOREIGN KEY (b_id) REFERENCES b (id)\<newline>);\<newline>\<newline>''"
proof -
  have h: "rel_type \<lparr>rel_type = Some ''many_to_many'', entity1 = Some ''a'', entity2 = Some ''b'',
      rel_attributes = []\<rparr> = Some ''many_to_many''" by simp
  show ?thesis
    using many_to_many_junction[OF h, of "\<lparr>conv_db_engine = ''sqlite''\<rparr>" _ "''a''" "''b''"]
    by (simp add: dict_get_def)
qed

text \<open>
  Claim C4, as the code has it: for a \<open>one_to_one\<close> relationship the converter of
  er\_to\_sql.py emits a comment line, the \<open>ALTER TABLE entity1 ADD COLUMN entity2_id INTEGER
  UNIQUE\<close> statement and the \<open>ALTER TABLE entity1 ADD FOREIGN KEY\<close> statement referencing
  \<open>entity2 (id)\<close>; the converter of nl\_to\_sql.py emits the empty string.
\<close>

theorem one_to_one_alter:
  assumes "rel_type r = Some ''one_to_one''"
  shows "er_generate_relationship self r =
           ''-- Add foreign key with unique constraint for one-to-one relationship\<newline>''
           @ ''ALTER TABLE '' @ dict_get (entity1 r) '''' @ '' ADD COLUMN ''
             @ dict_get (entity2 r) '''' @ ''_id INTEGER UNIQUE;\<newline>''
           @ ''ALTER TABLE '' @ dict_get (entity1 r) '''' @ '' ADD FOREIGN KEY (''
             @ dict_get (entity2 r) '''' @ ''_id) REFERENCES '' @ dict_get (entity2 r) ''''
             @ '' (id);\<newline>\<newline>''
       \<and> nl_generate_relationship self' r = ''''"
  using assms
  by (simp add: er_generate_relationship_def nl_generate_relationship_def dict_get_def Let_def)

theorem one_to_one_alter_witness:
  "er_generate_relationship \<lparr>conv_db_engine = ''sqlite''\<rparr>
     \<lparr>rel_type = Some ''one_to_one'', entity1 = Some ''a'', entity2 = Some ''b'',
      rel_attributes = []\<rparr>
   = ''-- Add foreign key with unique constraint for one-to-one relationship\<newline>ALTER TABLE a ADD COLUMN b_id INTEGER UNIQUE;\<newline>ALTER TABLE a ADD FOREIGN KEY (b_id) REFERENCES b (id);\<newline>\<newline>''"
proof -
  have h: "rel_type \<lparr>rel_type = Some ''one_to_one'', entity1 = Some ''a'', entity2 = Some ''b'',
      rel_attributes = []\<rparr> = Some ''one_to_one''" by simp
  show ?thesis
    using one_to_one_alter[OF h, of "\<lparr>conv_db_engine = ''sqlite''\<rparr>"]
    by (simp add: dict_get_def)
qed

text \<open>
  The converter of nl\_to\_sql.py emits nothing for a \<open>one_to_one\<close> relationship between
  \<open>orders\<close> and \<open>invoice\<close>: no \<open>ALTER TABLE\<close> statement at all.
\<close>

theorem one_to_one_nl_counterexample:
  "nl_generate_relationship \<lparr>conv_db_engine = ''sqlite''\<rparr>
     \<lparr>rel_type = Some ''one_to_one'', entity1 = Some ''orders'', entity2 = Some ''invoice'',
      rel_attributes = []\<rparr> = ''''"
  by (simp add: nl_generate_relationship_def dict_get_def Let_def)

lemma nl_generate_sql_closed:
  "nl_generate_sql self d =
     concat (map (nl_generate_create_table self) (dict_get (entities d) []))
     @ concat (map (nl_generate_relationship self) (dict_get (relationships d) []))"
  by (simp add: nl_generate_sql_def Let_def foldl_append_concat)

lemma er_generate_sql_closed:
  "er_generate_sql self d =
     ''-- SQL Generated from ER Diagram\<newline>\<newline>''
     @ concat (map (er_generate_create_table self) (dict_get (entities d) []))
     @ concat (map (er_generate_relationship self) (dict_get (relationships d) []))"
  by (simp add: er_generate_sql_def Let_def foldl_append_concat)

lemma one_to_many_empty:
  assumes "rel_type r = Some ''one_to_many''"
  shows "nl_generate_relationship self r = ''''" and "er_generate_relationship self r = ''''"
  using assms
  by (simp_all add: er_generate_relationship_def nl_generate_relationship_def dict_get_def Let_def)

text \<open>
  Claim C5: for a \<open>one_to_many\<close> relationship both converters return the empty string,
  and the synthesized script is the same with and without that relationship in the list.
\<close>

theorem one_to_many_no_ddl:
  assumes "rel_type r = Some ''one_to_many''"
  shows "nl_generate_relationship self r = ''''
       \<and> er_generate_relationship self r = ''''
       \<and> nl_generate_sql self \<lparr>entities = es, relationships = Some (rs @ r # rs')\<rparr>
         = nl_generate_sql self \<lparr>entities = es, relationships = Some (rs @ rs')\<rparr>
       \<and> er_generate_sql self \<lparr>entities = es, relationships = Some (rs @ r # rs')\<rparr>
         = er_generate_sql self \<lparr>entities = es, relationships = Some (rs @ rs')\<rparr>"
  using one_to_many_empty[OF assms, of self]
  by (simp add: nl_generate_sql_closed er_generate_sql_closed dict_get_def)

theorem one_to_many_no_ddl_witness:
  "nl_generate_relationship \<lparr>conv_db_engine = ''sqlite''\<rparr>
     \<lparr>rel_type = Some ''one_to_many'', entity1 = Some ''author'', entity2 = Some ''book'',
      rel_attributes = []\<rparr> = ''''
   \<and> er_generate_relationship \<lparr>conv_db_engine = ''sqlite''\<rparr>
     \<lparr>rel_type = Some ''one_to_many'', entity1 = Some ''author'', entity2 = Some ''book'',
      rel_attributes = []\<rparr> = ''''"
proof -
  have h: "rel_type \<lparr>rel_type = Some ''one_to_many'', entity1 = Some ''author'',
      entity2 = Some ''book'', rel_attributes = []\<rparr> = Some ''one_to_many''" by simp
  show ?thesis
    using one_to_many_no_ddl[OF h, of "\<lparr>conv_db_engine = ''sqlite''\<rparr>" None "[]" "[]"]
    by blast
qed





lemma nl_placeholder_output:
  "nl_generate_sql \<lparr>conv_db_engine = ''sqlite''\<rparr>
       (nl_extract_entities \<lparr>conv_db_engine = ''sqlite''\<rparr> ''a table of users'')
   = ''CREATE TABLE users (\<newline>    id INTEGER NOT NULL,\<newline>    username TEXT NOT NULL,\<newline>    PRIMARY KEY (id)\<newline>);\<newline>\<newline>''"
  by (simp add: nl_generate_sql_closed nl_extract_entities_def dict_get_def
      nl_generate_create_table_def create_table_clauses_shape Let_def)

section \<open>Properties of the executor\<close>

lemma connect_unsupported:
  assumes "db_engine self \<noteq> Some ''sqlite''"
  shows "connect eng self name =
           (self, [''Error connecting to database: Database engine ''
                     @ str_of_engine (db_engine self) @ '' not implemented yet''], False)"
  using assms by (simp add: connect_def)

text \<open>
  Claim C7, as the code has it: with a \<open>db_engine\<close> other than \<open>sqlite\<close>, \<open>connect\<close> catches
  its own \<open>NotImplementedError\<close>, prints the message and returns \<open>False\<close>; \<open>execute\<close> on
  a fresh executor then returns \<open>success = False\<close> with the fixed message
  \<open>Failed to connect to database\<close> and an empty log, which the request handler passes on
  as the error of its response; \<open>get_schema\<close> after the failed \<open>connect\<close> reports that
  there is no connection.
\<close>

theorem unsupported_engine_fails:
  assumes "e \<noteq> Some ''sqlite''"
  shows "connect eng \<lparr>db_engine = e, db_connection = None\<rparr> name
           = (\<lparr>db_engine = e, db_connection = None\<rparr>,
              [''Error connecting to database: Database engine '' @ str_of_engine e
                 @ '' not implemented yet''], False)
       \<and> execute eng \<lparr>db_engine = e, db_connection = None\<rparr> sql_code
           = Inr (\<lparr>db_engine = e, db_connection = None\<rparr>, [],
                  [''Error connecting to database: Database engine '' @ str_of_engine e
                     @ '' not implemented yet''],
                  \<lparr>res_success = False, res_message = ''Failed to connect to database'',
                   res_log = '''', res_results = None\<rparr>)
       \<and> execute_sql eng e sql_code
           = Inr \<lparr>resp_sql_code = sql_code, resp_execution_log = Some '''',
                  resp_error = Some ''Failed to connect to database'', resp_results = None\<rparr>
       \<and> get_schema eng (fst (connect eng \<lparr>db_engine = e, db_connection = None\<rparr> None))
           = Inl ''Not connected to a database''"
proof -
  let ?self = "\<lparr>db_engine = e, db_connection = None\<rparr> :: 'a executor"
  have c: "\<And>name. connect eng ?self name
           = (?self, [''Error connecting to database: Database engine '' @ str_of_engine e
                 @ '' not implemented yet''], False)"
    using connect_unsupported[of ?self eng] assms by simp
  have x: "execute eng ?self sql_code
           = Inr (?self, [],
                  [''Error connecting to database: Database engine '' @ str_of_engine e
                     @ '' not implemented yet''],
                  \<lparr>res_success = False, res_message = ''Failed to connect to database'',
                   res_log = '''', res_results = None\<rparr>)"
    by (simp add: execute_def c)
  have a: "execute_sql eng e sql_code
           = Inr \<lparr>resp_sql_code = sql_code, resp_execution_log = Some '''',
                  resp_error = Some ''Failed to connect to database'', resp_results = None\<rparr>"
    by (simp add: execute_sql_def x)
  have g: "get_schema eng (fst (connect eng ?self None)) = Inl ''Not connected to a database''"
    by (simp add: c get_schema_def)
  from c[of name] x a g show ?thesis by blast
qed

theorem unsupported_engine_fails_witness:
  "Some ''mysql'' \<noteq> Some ''sqlite''
   \<and> execute_sql deferred_engine (Some ''mysql'') ''SELECT 1;''
       = Inr \<lparr>resp_sql_code = ''SELECT 1;'', resp_execution_log = Some '''',
              resp_error = Some ''Failed to connect to database'', resp_results = None\<rparr>"
proof -
  have h: "Some ''mysql'' \<noteq> Some ''sqlite''" by simp
  from h unsupported_engine_fails[OF h, of deferred_engine None "''SELECT 1;''"]
  show ?thesis by blast
qed

text \<open>
  With \<open>db_engine = "mysql"\<close> the caller of \<open>execute\<close> is given the fixed connection-failure
  message; the message of the \<open>NotImplementedError\<close> is only printed.
\<close>

theorem unsupported_engine_counterexample:
  "execute deferred_engine \<lparr>db_engine = Some ''mysql'', db_connection = None\<rparr> ''SELECT 1;''
     = Inr (\<lparr>db_engine = Some ''mysql'', db_connection = None\<rparr>, [],
            [''Error connecting to database: Database engine mysql not implemented yet''],
            \<lparr>res_success = False, res_message = ''Failed to connect to database'',
             res_log = '''', res_results = None\<rparr>)
   \<and> ''Failed to connect to database'' \<noteq> ''Database engine mysql not implemented yet''"
  by (simp add: execute_def connect_def str_of_engine_def)
















end
